theory Spec2Isabelle
  imports Complex_Main "HOL-Library.Sublist"
begin

section \<open>Python values used by backend.py\<close>

text \<open>
  A Python \<^verbatim>\<open>str\<close> is a sequence of Unicode code points, so a string is a list of
  natural numbers here; \<open>lit\<close> turns an ASCII literal of the source into that form.
  Timestamps are the values of \<^verbatim>\<open>time.time()\<close>; on two doubles within a factor of two
  of each other the subtraction \<^verbatim>\<open>current_time - t\<close> is exact, so they are reals.
\<close>

type_synonym pystr = "nat list"

definition lit :: "string \<Rightarrow> pystr" where
  "lit s = map of_char s"

text \<open>The decimal text of a Python int that is not negative, as an f-string prints it.\<close>

fun str_nat :: "nat \<Rightarrow> pystr" where
  "str_nat n = (if n < 10 then [48 + n] else str_nat (n div 10) @ [48 + n mod 10])"

declare str_nat.simps [simp del]

text \<open>The value \<^verbatim>\<open>request.get_json()\<close> returns: a parsed JSON document. An object is
  the list of the items of the parsed dict (its keys are distinct).\<close>

datatype json =
    JNull
  | JBool bool
  | JInt int
  | JFloat real
  | JStr pystr
  | JArr "json list"
  | JObj "(pystr \<times> json) list"

text \<open>Python truth value of a parsed JSON value (\<^verbatim>\<open>if not code\<close>).\<close>

fun truthy :: "json \<Rightarrow> bool" where
  "truthy JNull = False"
| "truthy (JBool b) = b"
| "truthy (JInt i) = (i \<noteq> 0)"
| "truthy (JFloat r) = (r \<noteq> 0)"
| "truthy (JStr s) = (s \<noteq> [])"
| "truthy (JArr xs) = (xs \<noteq> [])"
| "truthy (JObj kvs) = (kvs \<noteq> [])"

fun py_type_name :: "json \<Rightarrow> pystr" where
  "py_type_name JNull = lit ''NoneType''"
| "py_type_name (JBool b) = lit ''bool''"
| "py_type_name (JInt i) = lit ''int''"
| "py_type_name (JFloat r) = lit ''float''"
| "py_type_name (JStr s) = lit ''str''"
| "py_type_name (JArr xs) = lit ''list''"
| "py_type_name (JObj kvs) = lit ''dict''"

text \<open>
  Exceptions. \<^verbatim>\<open>subprocess.TimeoutExpired\<close> has a handler of its own in both endpoints;
  every other exception that the handlers can meet is an instance of \<^verbatim>\<open>Exception\<close> and
  is kept with the text \<^verbatim>\<open>str(e)\<close>.
\<close>

datatype exn = TimeoutExpired | Exception pystr

definition attribute_error :: "json \<Rightarrow> string \<Rightarrow> exn" where
  "attribute_error v a =
     Exception (lit [CHR 0x27] @ py_type_name v @ lit ''' object has no attribute ''
                @ lit [CHR 0x27] @ lit a @ lit [CHR 0x27])"

text \<open>\<^verbatim>\<open>data.get(key, default)\<close>: only a dict has the method.\<close>

definition dict_get :: "json \<Rightarrow> string \<Rightarrow> json \<Rightarrow> exn + json" where
  "dict_get data key dflt =
     (case data of
        JObj kvs \<Rightarrow> (case map_of kvs (lit key) of None \<Rightarrow> Inr dflt | Some v \<Rightarrow> Inr v)
      | _ \<Rightarrow> Inl (attribute_error data ''get''))"

text \<open>\<^verbatim>\<open>str.isspace\<close> of one code point (CPython's table of white space) and
  \<^verbatim>\<open>str.strip()\<close>.\<close>

definition isspace :: "nat \<Rightarrow> bool" where
  "isspace c \<longleftrightarrow>
     (0x09 \<le> c \<and> c \<le> 0x0D) \<or> (0x1C \<le> c \<and> c \<le> 0x20) \<or> c = 0x85 \<or> c = 0xA0
     \<or> c = 0x1680 \<or> (0x2000 \<le> c \<and> c \<le> 0x200A) \<or> c = 0x2028 \<or> c = 0x2029
     \<or> c = 0x202F \<or> c = 0x205F \<or> c = 0x3000"

definition strip :: "pystr \<Rightarrow> pystr" where
  "strip s = rev (dropWhile isspace (rev (dropWhile isspace s)))"

definition py_strip :: "json \<Rightarrow> exn + pystr" where
  "py_strip v = (case v of JStr s \<Rightarrow> Inr (strip s) | _ \<Rightarrow> Inl (attribute_error v ''strip''))"

text \<open>The character class \<^verbatim>\<open>[a-zA-Z0-9\-_.[\]]\<close> and
  \<^verbatim>\<open>re.match(r'^[a-zA-Z0-9\-_.[\]]+$', package)\<close>: in Python \<^verbatim>\<open>$\<close> also matches
  just before a newline that ends the string.\<close>

definition allowed_char :: "nat \<Rightarrow> bool" where
  "allowed_char c \<longleftrightarrow>
     (0x61 \<le> c \<and> c \<le> 0x7A) \<or> (0x41 \<le> c \<and> c \<le> 0x5A) \<or> (0x30 \<le> c \<and> c \<le> 0x39)
     \<or> c = 0x2D \<or> c = 0x5F \<or> c = 0x2E \<or> c = 0x5B \<or> c = 0x5D"

definition re_match_package :: "pystr \<Rightarrow> bool" where
  "re_match_package s =
     (let b = (if s \<noteq> [] \<and> last s = 0x0A then butlast s else s)
      in b \<noteq> [] \<and> list_all allowed_char b)"

section \<open>Requests, responses and the world\<close>

datatype http_method = POST | OPTIONS

text \<open>What a handler reads of the Flask request: the method, \<^verbatim>\<open>request.remote_addr\<close>
  and the outcome of \<^verbatim>\<open>request.get_json()\<close> (\<open>Inl m\<close>: it raises an exception
  whose text is \<open>m\<close>).\<close>

record request =
  "method" :: http_method
  remote_addr :: pystr
  get_json :: "pystr + json"

datatype body = Text pystr | Json json

record response =
  body :: body
  status :: nat

text \<open>\<^verbatim>\<open>jsonify({'success': s, 'output': out, 'errors': err})\<close>, status 200.\<close>

definition result :: "bool \<Rightarrow> pystr \<Rightarrow> pystr \<Rightarrow> json" where
  "result s out err =
     JObj [(lit ''success'', JBool s), (lit ''output'', JStr out), (lit ''errors'', JStr err)]"

definition jsonify :: "json \<Rightarrow> response" where
  "jsonify j = \<lparr>body = Json j, status = 200\<rparr>"

text \<open>Effects on the operating system, in the order they happen.\<close>

datatype event =
    Create pystr
  | Unlink pystr
  | Spawn "pystr list" nat
  | Kill
  | Wait

text \<open>The state the handlers act on: the module-level dict \<^verbatim>\<open>rate_limit_cache\<close>, the
  files that exist, and the trace of effects.\<close>

record world =
  rate_limit_cache :: "pystr \<rightharpoonup> real list"
  files :: "pystr set"
  log :: "event list"

text \<open>
  What the child process does. \<open>SpawnFault m\<close>: it cannot be started. \<open>Exits d rc out
  err\<close>: it exits \<open>d\<close> seconds after its start with code \<open>rc\<close>, and its two
  pipes reach end of file then, holding the text \<open>out\<close> and \<open>err\<close>. \<open>Detaches d rc
  p out err\<close>: it exits after \<open>d\<close> seconds with code \<open>rc\<close>, but a process it
  started keeps standard output or standard error open until \<open>p\<close> seconds after the
  start. \<open>Undecodable d rc m\<close>: it exits after \<open>d\<close> seconds with code \<open>rc\<close>
  and its pipes close, but what it wrote cannot be decoded as text (\<open>m\<close> is the text of
  the decoding error). \<open>Hangs\<close>: it never exits.
\<close>

datatype child_behaviour =
    SpawnFault pystr
  | Exits real int pystr pystr
  | Detaches real int real pystr pystr
  | Undecodable real int pystr
  | Hangs

text \<open>
  What the environment decides during one request: the clock, the interpreter path,
  whether the temporary file can be created (and its name) and written, the child, the
  child's effect on the files, and whether \<^verbatim>\<open>os.unlink\<close> fails. A fault is the text of
  the exception raised.
\<close>

record env =
  now :: real
  sys_executable :: pystr
  tmp_create :: "pystr + pystr"
  write_fault :: "pystr \<Rightarrow> pystr option"
  child :: child_behaviour
  child_files :: "pystr set \<Rightarrow> pystr set"
  unlink_fault :: "pystr option"

section \<open>The rate limiter\<close>

text \<open>The admission step of \<^verbatim>\<open>decorated_function\<close> on the list kept for one client:
  prune, check, append.\<close>

definition prune :: "nat \<Rightarrow> real \<Rightarrow> real list \<Rightarrow> real list" where
  "prune window current_time ts = filter (\<lambda>t. current_time - t < real window) ts"

definition rate_limit_message :: "nat \<Rightarrow> nat \<Rightarrow> pystr" where
  "rate_limit_message max_requests window =
     lit ''Rate limit exceeded. Maximum '' @ str_nat max_requests @ lit '' requests per ''
     @ str_nat window @ lit '' seconds.''"

definition decorated_function ::
  "nat \<Rightarrow> nat \<Rightarrow> (request \<Rightarrow> env \<Rightarrow> world \<Rightarrow> (exn + response) \<times> world)
     \<Rightarrow> request \<Rightarrow> env \<Rightarrow> world \<Rightarrow> (exn + response) \<times> world" where
  "decorated_function max_requests window f req e w =
     (let client_ip = remote_addr req;
          current_time = now e;
          cache0 = (case rate_limit_cache w client_ip of
                      None \<Rightarrow> (rate_limit_cache w)(client_ip \<mapsto> [])
                    | Some _ \<Rightarrow> rate_limit_cache w);
          kept = prune window current_time (case cache0 client_ip of None \<Rightarrow> [] | Some ts \<Rightarrow> ts);
          cache1 = cache0(client_ip \<mapsto> kept)
      in if length kept \<ge> max_requests
         then (Inr \<lparr>body = Json (result False [] (rate_limit_message max_requests window)),
                    status = 429\<rparr>,
               w\<lparr>rate_limit_cache := cache1\<rparr>)
         else f req e (w\<lparr>rate_limit_cache := cache1(client_ip \<mapsto> kept @ [current_time])\<rparr>))"

section \<open>Library calls\<close>

text \<open>
  \<^verbatim>\<open>with tempfile.NamedTemporaryFile(mode='w', suffix='.py', delete=False) as f:
      f.write(code); temp_file = f.name\<close>
  The file exists from its creation on (\<^verbatim>\<open>delete=False\<close>: leaving the block closes
  it and keeps it). Writing a value that is not a \<^verbatim>\<open>str\<close> raises TypeError; writing a
  string fails when the environment says so (text that cannot be encoded, a full disk).
\<close>

definition named_temporary_file :: "json \<Rightarrow> env \<Rightarrow> world \<Rightarrow> (exn + pystr) \<times> world" where
  "named_temporary_file code e w =
     (case tmp_create e of
        Inl m \<Rightarrow> (Inl (Exception m), w)
      | Inr name \<Rightarrow>
          (let w1 = w\<lparr>files := insert name (files w), log := log w @ [Create name]\<rparr>
           in case code of
                JStr s \<Rightarrow>
                  (case write_fault e s of
                     Some m \<Rightarrow> (Inl (Exception m), w1)
                   | None \<Rightarrow> (Inr name, w1))
              | _ \<Rightarrow>
                  (Inl (Exception (lit ''write() argument must be str, not '' @ py_type_name code)),
                   w1)))"

record completed_process =
  returncode :: int
  stdout :: pystr
  stderr :: pystr

text \<open>
  \<^verbatim>\<open>subprocess.run(argv, capture_output=True, text=True, timeout=timeout)\<close>. The event
  \<open>Spawn\<close> records the call. When the child cannot be started nothing else happens.
  The call reads both pipes to their end and then reaps the child: when the child has
  exited and both pipes have reached end of file within the deadline, its exit code and
  decoded output are returned. When the deadline passes first, because the child has not
  exited or because a process it started still holds a pipe, \<^verbatim>\<open>kill\<close> is called on
  the child, the child is reaped and TimeoutExpired is raised. When the output of a child
  that exited cannot be decoded as text, \<^verbatim>\<open>kill\<close> is called all the same, the child
  is reaped and the decoding error is raised.
\<close>

definition subprocess_run ::
  "pystr list \<Rightarrow> nat \<Rightarrow> env \<Rightarrow> world \<Rightarrow> (exn + completed_process) \<times> world" where
  "subprocess_run argv timeout e w =
     (let called = w\<lparr>log := log w @ [Spawn argv timeout]\<rparr>;
          started = called\<lparr>files := child_files e (files w)\<rparr>;
          reaped = started\<lparr>log := log started @ [Wait]\<rparr>;
          killed = started\<lparr>log := log started @ [Kill, Wait]\<rparr>
      in case child e of
           SpawnFault m \<Rightarrow> (Inl (Exception m), called)
         | Exits d rc out err \<Rightarrow>
             if d < real timeout
             then (Inr \<lparr>returncode = rc, stdout = out, stderr = err\<rparr>, reaped)
             else (Inl TimeoutExpired, killed)
         | Detaches d rc p out err \<Rightarrow>
             if d < real timeout \<and> p < real timeout
             then (Inr \<lparr>returncode = rc, stdout = out, stderr = err\<rparr>, reaped)
             else (Inl TimeoutExpired, killed)
         | Undecodable d rc m \<Rightarrow>
             if d < real timeout then (Inl (Exception m), killed) else (Inl TimeoutExpired, killed)
         | Hangs \<Rightarrow> (Inl TimeoutExpired, killed))"

text \<open>The \<^verbatim>\<open>finally\<close> block of \<^verbatim>\<open>run_code\<close>:
  \<^verbatim>\<open>if os.path.exists(temp_file): os.unlink(temp_file)\<close>. It returns the exception it
  raises, if any.\<close>

definition cleanup :: "pystr \<Rightarrow> env \<Rightarrow> world \<Rightarrow> exn option \<times> world" where
  "cleanup temp_file e w =
     (if temp_file \<in> files w
      then (case unlink_fault e of
              Some m \<Rightarrow> (Some (Exception m), w)
            | None \<Rightarrow>
                (None, w\<lparr>files := files w - {temp_file}, log := log w @ [Unlink temp_file]\<rparr>))
      else (None, w))"

section \<open>The handlers\<close>

text \<open>
  \<open>run_code\<close> and \<open>install_package\<close> are the two function bodies as written;
  \<open>api_run\<close> and \<open>api_install\<close> are what the routes \<^verbatim>\<open>/api/run\<close> and
  \<^verbatim>\<open>/api/install\<close> call, the bodies wrapped by \<^verbatim>\<open>rate_limit\<close>. A handler returns
  \<open>Inr\<close> of its response, or \<open>Inl\<close> of an exception that leaves it.
\<close>

definition run_code_try :: "request \<Rightarrow> env \<Rightarrow> world \<Rightarrow> (exn + response) \<times> world" where
  "run_code_try req e w =
     (case get_json req of
        Inl m \<Rightarrow> (Inl (Exception m), w)
      | Inr data \<Rightarrow>
          (case dict_get data ''code'' (JStr []) of
             Inl x \<Rightarrow> (Inl x, w)
           | Inr code \<Rightarrow>
               if \<not> truthy code
               then (Inr (jsonify (result False [] (lit ''No code provided''))), w)
               else
                 (case named_temporary_file code e w of
                    (Inl x, w1) \<Rightarrow> (Inl x, w1)
                  | (Inr temp_file, w1) \<Rightarrow>
                      (case subprocess_run [sys_executable e, temp_file] 30 e w1 of
                         (r, w2) \<Rightarrow>
                           (case cleanup temp_file e w2 of
                              (Some x, w3) \<Rightarrow> (Inl x, w3)
                            | (None, w3) \<Rightarrow>
                                (case r of
                                   Inl x \<Rightarrow> (Inl x, w3)
                                 | Inr p \<Rightarrow>
                                     (Inr (jsonify (result (returncode p = 0) (stdout p)
                                        (stderr p))), w3)))))))"

definition run_code :: "request \<Rightarrow> env \<Rightarrow> world \<Rightarrow> (exn + response) \<times> world" where
  "run_code req e w =
     (if method req = OPTIONS then (Inr \<lparr>body = Text [], status = 204\<rparr>, w)
      else
        (case run_code_try req e w of
           (Inr r, w') \<Rightarrow> (Inr r, w')
         | (Inl TimeoutExpired, w') \<Rightarrow>
             (Inr (jsonify (result False []
                (lit ''Execution timeout: Code took longer than 30 seconds to execute''))), w')
         | (Inl (Exception m), w') \<Rightarrow>
             (Inr (jsonify (result False [] (lit ''Server error: '' @ m))), w')))"

definition install_package_try :: "request \<Rightarrow> env \<Rightarrow> world \<Rightarrow> (exn + response) \<times> world" where
  "install_package_try req e w =
     (case get_json req of
        Inl m \<Rightarrow> (Inl (Exception m), w)
      | Inr data \<Rightarrow>
          (case dict_get data ''package'' (JStr []) of
             Inl x \<Rightarrow> (Inl x, w)
           | Inr v \<Rightarrow>
               (case py_strip v of
                  Inl x \<Rightarrow> (Inl x, w)
                | Inr package \<Rightarrow>
                    if package = []
                    then (Inr (jsonify (result False [] (lit ''No package name provided''))), w)
                    else if \<not> re_match_package package
                    then (Inr (jsonify (result False [] (lit
                      ''Invalid package name. Only alphanumeric characters, hyphens, underscores, dots, and brackets are allowed.''))),
                      w)
                    else
                      (case subprocess_run
                              [sys_executable e, lit ''-m'', lit ''pip'', lit ''install'', package]
                              120 e w of
                         (Inl x, w1) \<Rightarrow> (Inl x, w1)
                       | (Inr p, w1) \<Rightarrow>
                           (Inr (jsonify (result (returncode p = 0) (stdout p) (stderr p))),
                            w1)))))"

definition install_package :: "request \<Rightarrow> env \<Rightarrow> world \<Rightarrow> (exn + response) \<times> world" where
  "install_package req e w =
     (if method req = OPTIONS then (Inr \<lparr>body = Text [], status = 204\<rparr>, w)
      else
        (case install_package_try req e w of
           (Inr r, w') \<Rightarrow> (Inr r, w')
         | (Inl TimeoutExpired, w') \<Rightarrow>
             (Inr (jsonify (result False []
                (lit ''Installation timeout: Package installation took longer than 120 seconds''))),
              w')
         | (Inl (Exception m), w') \<Rightarrow>
             (Inr (jsonify (result False [] (lit ''Server error: '' @ m))), w')))"

definition api_run :: "request \<Rightarrow> env \<Rightarrow> world \<Rightarrow> (exn + response) \<times> world" where
  "api_run = decorated_function 20 60 run_code"

definition api_install :: "request \<Rightarrow> env \<Rightarrow> world \<Rightarrow> (exn + response) \<times> world" where
  "api_install = decorated_function 10 300 install_package"

text \<open>A server run: requests are served one after the other, each to its endpoint,
  starting from the world where \<^verbatim>\<open>rate_limit_cache = {}\<close>.\<close>

datatype endpoint = ApiRun | ApiInstall

fun serve :: "endpoint \<Rightarrow> request \<Rightarrow> env \<Rightarrow> world \<Rightarrow> (exn + response) \<times> world" where
  "serve ApiRun = api_run"
| "serve ApiInstall = api_install"

fun serve_all :: "(endpoint \<times> request \<times> env) list \<Rightarrow> world \<Rightarrow> (exn + response) list \<times> world" where
  "serve_all [] w = ([], w)"
| "serve_all ((ep, req, e) # rest) w =
     (case serve ep req e w of
        (r, w1) \<Rightarrow> (case serve_all rest w1 of (rs, w2) \<Rightarrow> (r # rs, w2)))"

definition startup :: world where
  "startup = \<lparr>rate_limit_cache = Map.empty, files = {}, log = []\<rparr>"

text \<open>The list the limiter holds for a client (none yet: empty).\<close>

definition cache_list :: "world \<Rightarrow> pystr \<Rightarrow> real list" where
  "cache_list w c = (case rate_limit_cache w c of None \<Rightarrow> [] | Some ts \<Rightarrow> ts)"

text \<open>A response body that is a result object: exactly the three fields \<^verbatim>\<open>success\<close>
  (a boolean), \<^verbatim>\<open>output\<close> and \<^verbatim>\<open>errors\<close> (strings), with status 200.\<close>

fun is_result :: "json \<Rightarrow> bool" where
  "is_result (JObj [(k1, JBool s), (k2, JStr out), (k3, JStr err)]) =
     (k1 = lit ''success'' \<and> k2 = lit ''output'' \<and> k3 = lit ''errors'')"
| "is_result _ = False"

definition well_formed :: "response \<Rightarrow> bool" where
  "well_formed r \<longleftrightarrow> status r = 200 \<and> (case body r of Json j \<Rightarrow> is_result j | Text t \<Rightarrow> False)"




text \<open>The two decorators, \<^verbatim>\<open>@rate_limit(max_requests=20, window=60)\<close> on the run
  handler and \<^verbatim>\<open>@rate_limit(max_requests=10, window=300)\<close> on the install handler.\<close>

fun max_requests_of :: "endpoint \<Rightarrow> nat" where
  "max_requests_of ApiRun = 20"
| "max_requests_of ApiInstall = 10"

fun window_of :: "endpoint \<Rightarrow> nat" where
  "window_of ApiRun = 60"
| "window_of ApiInstall = 300"

fun handler_of :: "endpoint \<Rightarrow> request \<Rightarrow> env \<Rightarrow> world \<Rightarrow> (exn + response) \<times> world" where
  "handler_of ApiRun = run_code"
| "handler_of ApiInstall = install_package"

text \<open>A request is rejected by the limiter when its answer has status 429. The
  timestamps of the requests of client \<open>c\<close> to endpoint \<open>ep\<close> that a server run
  admitted, and how many of them lie in the window that starts at \<open>s\<close> and is as
  long as the window of the endpoint.\<close>

definition rejected :: "exn + response \<Rightarrow> bool" where
  "rejected r = (case r of Inl x \<Rightarrow> False | Inr resp \<Rightarrow> status resp = 429)"

fun admitted_times :: "endpoint \<Rightarrow> pystr \<Rightarrow> (endpoint \<times> request \<times> env) list \<Rightarrow> world \<Rightarrow> real list" where
  "admitted_times ep c [] w = []"
| "admitted_times ep c ((ep', req, e) # rest) w =
     (case serve ep' req e w of
        (r, w1) \<Rightarrow>
          (if ep' = ep \<and> remote_addr req = c \<and> \<not> rejected r then [now e] else [])
          @ admitted_times ep c rest w1)"

definition admitted_in_window :: "endpoint \<Rightarrow> pystr \<Rightarrow> (endpoint \<times> request \<times> env) list \<Rightarrow> real \<Rightarrow> nat" where
  "admitted_in_window ep c trace s =
     length (filter (\<lambda>t. s \<le> t \<and> t < s + real (window_of ep)) (admitted_times ep c trace startup))"

section \<open>Strings: stripping and the package pattern\<close>

lemma lit_eq_iff [simp]: "lit a = lit b \<longleftrightarrow> a = b"
  by (simp add: lit_def inj_map_eq_map inj_on_def)

lemma allowed_not_space: "allowed_char c \<Longrightarrow> \<not> isspace c"
  by (auto simp: allowed_char_def isspace_def)

lemma strip_last_not_space: "strip s \<noteq> [] \<Longrightarrow> \<not> isspace (last (strip s))"
proof -
  assume ne: "strip s \<noteq> []"
  let ?d = "dropWhile isspace (rev (dropWhile isspace s))"
  from ne have d: "?d \<noteq> []" by (simp add: strip_def)
  then have "\<not> isspace (hd ?d)" by (rule hd_dropWhile)
  moreover have "last (strip s) = hd ?d" using d by (simp add: strip_def last_rev)
  ultimately show ?thesis by simp
qed

text \<open>After \<open>strip\<close> no newline can end the string, so \<^verbatim>\<open>$\<close> only matches at the
  very end and the pattern accepts exactly the non-empty strings over the class.\<close>

lemma re_match_package_strip:
  "re_match_package (strip s) \<longleftrightarrow> strip s \<noteq> [] \<and> list_all allowed_char (strip s)"
proof (cases "strip s = []")
  case True
  then show ?thesis by (simp add: re_match_package_def)
next
  case False
  then have "\<not> isspace (last (strip s))" by (rule strip_last_not_space)
  then have "last (strip s) \<noteq> 0x0A" by (auto simp: isspace_def)
  then show ?thesis using False by (simp add: re_match_package_def)
qed

lemma strip_allowed:
  assumes "list_all allowed_char s"
  shows "strip s = s"
proof (cases s)
  case Nil
  then show ?thesis by (simp add: strip_def)
next
  case (Cons c cs)
  with assms have h: "\<not> isspace (hd s)" by (simp add: allowed_not_space)
  have l: "\<not> isspace (last s)" using assms Cons
    by (metis allowed_not_space last_in_set list.distinct(1) list_all_iff)
  have 1: "dropWhile isspace s = s" using h Cons by simp
  have ne: "rev s \<noteq> []" using Cons by simp
  moreover have "hd (rev s) = last s" using Cons by (simp add: hd_rev)
  ultimately have "\<not> isspace (hd (rev s))" using l by simp
  with ne have 2: "dropWhile isspace (rev s) = rev s"
    by (metis dropWhile.simps(2) list.collapse)
  show ?thesis by (simp add: strip_def 1 2)
qed

section \<open>The run handler: validation\<close>

text \<open>
  C9. A POST to the run handler whose JSON object has no \<^verbatim>\<open>code\<close> key, or has the
  empty string there, is answered with \<^verbatim>\<open>success = False\<close> and the validation message
  \<^verbatim>\<open>No code provided\<close>, which is not a server-error message; the world is left as it
  was, so no temporary file is created and no subprocess is run. Behind the rate limiter
  too, the files and the trace of effects are unchanged, whether the request is admitted
  or not.
\<close>

theorem run_code_empty_code:
  assumes "method req = POST"
    and "get_json req = Inr (JObj kvs)"
    and "map_of kvs (lit ''code'') = None \<or> map_of kvs (lit ''code'') = Some (JStr [])"
  shows "run_code req e w = (Inr (jsonify (result False [] (lit ''No code provided''))), w)
       \<and> (\<forall>m. lit ''No code provided'' \<noteq> lit ''Server error: '' @ m)
       \<and> log (snd (api_run req e w)) = log w \<and> files (snd (api_run req e w)) = files w"
  using assms
  by (auto simp: run_code_def run_code_try_def dict_get_def api_run_def decorated_function_def
      Let_def lit_def split: option.splits)

theorem run_code_empty_code_witness:
  "method \<lparr>method = POST, remote_addr = lit ''10.0.0.1'',
           get_json = Inr (JObj [(lit ''code'', JStr [])])\<rparr> = POST
   \<and> map_of [(lit ''code'', JStr [])] (lit ''code'') = Some (JStr [])
   \<and> run_code \<lparr>method = POST, remote_addr = lit ''10.0.0.1'',
                get_json = Inr (JObj [(lit ''code'', JStr [])])\<rparr>
        \<lparr>now = 0, sys_executable = lit ''python3'', tmp_create = Inr (lit ''/tmp/tmpa.py''),
         write_fault = (\<lambda>s. None), child = Hangs, child_files = (\<lambda>fs. fs),
         unlink_fault = None\<rparr> startup
     = (Inr (jsonify (result False [] (lit ''No code provided''))), startup)"
  using run_code_empty_code [of
      "\<lparr>method = POST, remote_addr = lit ''10.0.0.1'',
        get_json = Inr (JObj [(lit ''code'', JStr [])])\<rparr>"
      "[(lit ''code'', JStr [])]"
      "\<lparr>now = 0, sys_executable = lit ''python3'', tmp_create = Inr (lit ''/tmp/tmpa.py''),
        write_fault = (\<lambda>s. None), child = Hangs, child_files = (\<lambda>fs. fs),
        unlink_fault = None\<rparr>"
      startup]
  by simp

section \<open>The install handler: validation\<close>

lemma subprocess_run_log:
  "\<exists>evs. log (snd (subprocess_run argv t e w)) = log w @ Spawn argv t # evs"
  by (simp add: subprocess_run_def Let_def split: child_behaviour.splits)

lemma install_package_valid:
  assumes "method req = POST"
    and "get_json req = Inr (JObj kvs)"
    and "map_of kvs (lit ''package'') = Some (JStr raw)"
    and "strip raw \<noteq> []"
    and "list_all allowed_char (strip raw)"
  shows "snd (install_package req e w)
       = snd (subprocess_run
               [sys_executable e, lit ''-m'', lit ''pip'', lit ''install'', strip raw] 120 e w)"
  using assms
  by (simp add: install_package_def install_package_try_def dict_get_def py_strip_def
      re_match_package_strip split: prod.splits sum.splits exn.splits)

text \<open>
  C10. A non-empty package string made of allowed characters only is left as it is by
  \<open>strip\<close>, matches the pattern, and is the last element of the argument vector of
  the \<^verbatim>\<open>pip install\<close> subprocess, unchanged. A leading hyphen is an allowed character,
  so \<^verbatim>\<open>--upgrade\<close> reaches pip in the place of the package name.
\<close>

theorem install_package_passes_allowed_string:
  assumes "method req = POST"
    and "get_json req = Inr (JObj kvs)"
    and "map_of kvs (lit ''package'') = Some (JStr package)"
    and "package \<noteq> []"
    and "list_all allowed_char package"
  shows "strip package = package \<and> re_match_package package
       \<and> (\<exists>evs. log (snd (install_package req e w))
             = log w @ Spawn [sys_executable e, lit ''-m'', lit ''pip'', lit ''install'', package]
                         120 # evs)"
proof -
  have s: "strip package = package"
    using assms(5) by (rule strip_allowed)
  have m: "re_match_package package"
    using re_match_package_strip [of package] assms(4,5) s by simp
  have "snd (install_package req e w)
       = snd (subprocess_run
               [sys_executable e, lit ''-m'', lit ''pip'', lit ''install'', package] 120 e w)"
    using install_package_valid [OF assms(1,2,3), of e w] assms(4,5) s by simp
  then show ?thesis
    using s m subprocess_run_log by simp
qed

theorem install_package_passes_allowed_string_witness:
  "list_all allowed_char (lit ''--upgrade'')
   \<and> (\<exists>evs. log (snd (install_package
         \<lparr>method = POST, remote_addr = lit ''10.0.0.1'',
          get_json = Inr (JObj [(lit ''package'', JStr (lit ''--upgrade''))])\<rparr>
         \<lparr>now = 0, sys_executable = lit ''python3'', tmp_create = Inr (lit ''/tmp/tmpa.py''),
          write_fault = (\<lambda>s. None), child = Exits 2 0 [] [], child_files = (\<lambda>fs. fs),
          unlink_fault = None\<rparr> startup))
        = log startup
          @ Spawn [lit ''python3'', lit ''-m'', lit ''pip'', lit ''install'', lit ''--upgrade'']
              120 # evs)"
proof -
  have a: "list_all allowed_char (lit ''--upgrade'')"
    by (simp add: lit_def allowed_char_def)
  have n: "lit ''--upgrade'' \<noteq> []"
    by (simp add: lit_def)
  show ?thesis
    using a install_package_passes_allowed_string [of
        "\<lparr>method = POST, remote_addr = lit ''10.0.0.1'',
          get_json = Inr (JObj [(lit ''package'', JStr (lit ''--upgrade''))])\<rparr>"
        "[(lit ''package'', JStr (lit ''--upgrade''))]" "lit ''--upgrade''"
        "\<lparr>now = 0, sys_executable = lit ''python3'', tmp_create = Inr (lit ''/tmp/tmpa.py''),
          write_fault = (\<lambda>s. None), child = Exits 2 0 [] [], child_files = (\<lambda>fs. fs),
          unlink_fault = None\<rparr>" startup, OF _ _ _ n a]
    by simp
qed




section \<open>The handlers as error boundary\<close>

lemma is_result_result: "is_result (result s out err)"
  by (simp add: result_def)

lemma well_formed_jsonify: "well_formed (jsonify (result s out err))"
  by (simp add: well_formed_def jsonify_def result_def)

lemma run_code_try_response:
  "fst (run_code_try req e w) = Inr r \<Longrightarrow> well_formed r"
  by (auto simp: run_code_try_def well_formed_jsonify
      split: sum.splits if_splits prod.splits option.splits)

lemma install_package_try_response:
  "fst (install_package_try req e w) = Inr r \<Longrightarrow> well_formed r"
  by (auto simp: install_package_try_def well_formed_jsonify
      split: sum.splits if_splits prod.splits option.splits)

lemma run_code_post:
  assumes "method req = POST"
  shows "\<exists>r. fst (run_code req e w) = Inr r \<and> well_formed r"
proof (cases "fst (run_code_try req e w)")
  case (Inl x)
  then show ?thesis using assms
    by (cases x) (auto simp: run_code_def well_formed_jsonify split: prod.splits)
next
  case (Inr r)
  from run_code_try_response [OF this] show ?thesis
    using assms Inr by (auto simp: run_code_def split: prod.splits)
qed

lemma install_package_post:
  assumes "method req = POST"
  shows "\<exists>r. fst (install_package req e w) = Inr r \<and> well_formed r"
proof (cases "fst (install_package_try req e w)")
  case (Inl x)
  then show ?thesis using assms
    by (cases x) (auto simp: install_package_def well_formed_jsonify split: prod.splits)
next
  case (Inr r)
  from install_package_try_response [OF this] show ?thesis
    using assms Inr by (auto simp: install_package_def split: prod.splits)
qed

lemma run_code_total: "\<exists>r. fst (run_code req e w) = Inr r"
  by (auto simp: run_code_def split: prod.splits sum.splits exn.splits)

lemma install_package_total: "\<exists>r. fst (install_package req e w) = Inr r"
  by (auto simp: install_package_def split: prod.splits sum.splits exn.splits)

text \<open>
  C7. Neither handler lets an exception out: each returns a response, and so does each
  endpoint with its rate limiter. For a POST the
  response is a result object with the three fields \<^verbatim>\<open>success\<close>, \<^verbatim>\<open>output\<close> and
  \<^verbatim>\<open>errors\<close>. Whatever exception other than TimeoutExpired ends the \<^verbatim>\<open>try\<close> block
  (a fault of \<^verbatim>\<open>get_json\<close>, a body that is no object, a failure to create or write
  the temporary file, to start the child, to decode its output or to remove the file)
  becomes \<^verbatim>\<open>success = False\<close>, \<^verbatim>\<open>output = ""\<close> and \<^verbatim>\<open>Server error: \<close> followed by
  the text of the exception.
\<close>

theorem handlers_fold_faults:
  "(\<exists>r. fst (run_code req e w) = Inr r \<and> (method req = POST \<longrightarrow> well_formed r))
   \<and> (\<exists>r. fst (install_package req e w) = Inr r \<and> (method req = POST \<longrightarrow> well_formed r))
   \<and> (\<exists>r. fst (serve ep req e w) = Inr r)
   \<and> (method req = POST \<and> fst (run_code_try req e w) = Inl (Exception m)
        \<longrightarrow> fst (run_code req e w) = Inr (jsonify (result False [] (lit ''Server error: '' @ m))))
   \<and> (method req = POST \<and> fst (install_package_try req e w) = Inl (Exception m)
        \<longrightarrow> fst (install_package req e w) = Inr (jsonify (result False [] (lit ''Server error: '' @ m))))"
proof (intro conjI)
  show "\<exists>r. fst (run_code req e w) = Inr r \<and> (method req = POST \<longrightarrow> well_formed r)"
    using run_code_total [of req e w] run_code_post [of req e w] by auto
  show "\<exists>r. fst (install_package req e w) = Inr r \<and> (method req = POST \<longrightarrow> well_formed r)"
    using install_package_total [of req e w] install_package_post [of req e w] by auto
  show "\<exists>r. fst (serve ep req e w) = Inr r"
    by (cases ep)
      (simp_all add: api_run_def api_install_def decorated_function_def Let_def
        run_code_total install_package_total)
  show "method req = POST \<and> fst (run_code_try req e w) = Inl (Exception m)
        \<longrightarrow> fst (run_code req e w) = Inr (jsonify (result False [] (lit ''Server error: '' @ m)))"
    by (auto simp: run_code_def split: prod.splits)
  show "method req = POST \<and> fst (install_package_try req e w) = Inl (Exception m)
        \<longrightarrow> fst (install_package req e w) = Inr (jsonify (result False [] (lit ''Server error: '' @ m)))"
    by (auto simp: install_package_def split: prod.splits)
qed

theorem handlers_fold_faults_witness:
  "fst (run_code
        \<lparr>method = POST, remote_addr = lit ''10.0.0.1'',
         get_json = Inl (lit ''415 Unsupported Media Type'')\<rparr>
        \<lparr>now = 0, sys_executable = lit ''python3'', tmp_create = Inr (lit ''/tmp/tmpa.py''),
         write_fault = (\<lambda>s. None), child = Hangs, child_files = (\<lambda>fs. fs),
         unlink_fault = None\<rparr> startup)
     = Inr (jsonify (result False []
         (lit ''Server error: '' @ lit ''415 Unsupported Media Type'')))
   \<and> fst (install_package
        \<lparr>method = POST, remote_addr = lit ''10.0.0.1'',
         get_json = Inl (lit ''415 Unsupported Media Type'')\<rparr>
        \<lparr>now = 0, sys_executable = lit ''python3'', tmp_create = Inr (lit ''/tmp/tmpa.py''),
         write_fault = (\<lambda>s. None), child = Hangs, child_files = (\<lambda>fs. fs),
         unlink_fault = None\<rparr> startup)
     = Inr (jsonify (result False []
         (lit ''Server error: '' @ lit ''415 Unsupported Media Type'')))"
  using handlers_fold_faults [of
      "\<lparr>method = POST, remote_addr = lit ''10.0.0.1'',
        get_json = Inl (lit ''415 Unsupported Media Type'')\<rparr>"
      "\<lparr>now = 0, sys_executable = lit ''python3'', tmp_create = Inr (lit ''/tmp/tmpa.py''),
        write_fault = (\<lambda>s. None), child = Hangs, child_files = (\<lambda>fs. fs),
        unlink_fault = None\<rparr>"
      startup ApiRun "lit ''415 Unsupported Media Type''"]
  by (simp add: run_code_try_def install_package_try_def)

section \<open>The child's outcome\<close>

lemma run_code_reaches_spawn:
  assumes "method req = POST"
    and "get_json req = Inr (JObj kvs)"
    and "map_of kvs (lit ''code'') = Some (JStr code)"
    and "code \<noteq> []"
    and "tmp_create e = Inr temp_file"
    and "write_fault e code = None"
  shows "run_code_try req e w =
     (case subprocess_run [sys_executable e, temp_file] 30 e
             (w\<lparr>files := insert temp_file (files w), log := log w @ [Create temp_file]\<rparr>) of
        (r, w2) \<Rightarrow>
          (case cleanup temp_file e w2 of
             (Some x, w3) \<Rightarrow> (Inl x, w3)
           | (None, w3) \<Rightarrow>
               (case r of
                  Inl x \<Rightarrow> (Inl x, w3)
                | Inr p \<Rightarrow>
                    (Inr (jsonify (result (returncode p = 0) (stdout p) (stderr p))), w3))))"
  using assms
  by (simp add: run_code_try_def dict_get_def named_temporary_file_def Let_def)











section \<open>The temporary file\<close>

text \<open>When the file was created and written, and removing it does not fail, it is gone
  after the handler, whatever the child did.\<close>

lemma run_code_removes_unit:
  assumes "method req = POST"
    and "get_json req = Inr (JObj kvs)"
    and "map_of kvs (lit ''code'') = Some (JStr code)"
    and "code \<noteq> []"
    and "tmp_create e = Inr temp_file"
    and "write_fault e code = None"
    and "unlink_fault e = None"
  shows "temp_file \<notin> files (snd (run_code req e w))"
proof -
  have c: "temp_file \<notin> files (snd (cleanup temp_file e w2))" for w2
    using assms(7) by (simp add: cleanup_def)
  show ?thesis
    using c [of "snd (subprocess_run [sys_executable e, temp_file] 30 e
             (w\<lparr>files := insert temp_file (files w), log := log w @ [Create temp_file]\<rparr>))"]
    unfolding run_code_def run_code_reaches_spawn [OF assms(1-6)]
    using assms(1)
    by (auto split: prod.splits option.splits sum.splits exn.splits)
qed

text \<open>
  C4 at a failing input. The file is created by \<^verbatim>\<open>NamedTemporaryFile\<close> before
  \<^verbatim>\<open>f.write(code)\<close>, and both stand before the \<^verbatim>\<open>try/finally\<close> that removes
  it. A code string with a lone surrogate (code point D800) cannot be encoded as
  UTF-8, and a code value that is a number cannot be written at all: in both cases the
  write raises, the answer is a server error, and the file stays.
\<close>

theorem write_fault_leaves_file:
  "run_code
     \<lparr>method = POST, remote_addr = lit ''10.0.0.1'',
      get_json = Inr (JObj [(lit ''code'', JStr [0xD800])])\<rparr>
     \<lparr>now = 0, sys_executable = lit ''python3'', tmp_create = Inr (lit ''/tmp/tmpa.py''),
      write_fault = (\<lambda>s. if list_ex (\<lambda>c. 0xD800 \<le> c \<and> c \<le> 0xDFFF) s
                          then Some (lit ''surrogates not allowed'') else None),
      child = Exits 1 0 [] [], child_files = (\<lambda>fs. fs), unlink_fault = None\<rparr> startup
   = (Inr (jsonify (result False [] (lit ''Server error: surrogates not allowed''))),
      \<lparr>rate_limit_cache = Map.empty, files = {lit ''/tmp/tmpa.py''},
       log = [Create (lit ''/tmp/tmpa.py'')]\<rparr>)
   \<and> run_code
     \<lparr>method = POST, remote_addr = lit ''10.0.0.1'',
      get_json = Inr (JObj [(lit ''code'', JInt 5)])\<rparr>
     \<lparr>now = 0, sys_executable = lit ''python3'', tmp_create = Inr (lit ''/tmp/tmpa.py''),
      write_fault = (\<lambda>s. None), child = Exits 1 0 [] [], child_files = (\<lambda>fs. fs),
      unlink_fault = None\<rparr> startup
   = (Inr (jsonify (result False []
        (lit ''Server error: write() argument must be str, not int''))),
      \<lparr>rate_limit_cache = Map.empty, files = {lit ''/tmp/tmpa.py''},
       log = [Create (lit ''/tmp/tmpa.py'')]\<rparr>)"
  by (simp add: run_code_def run_code_try_def dict_get_def named_temporary_file_def
      startup_def Let_def lit_def)

section \<open>Admission: one table for both endpoints\<close>

lemma serve_eq: "serve ep = decorated_function (max_requests_of ep) (window_of ep) (handler_of ep)"
  by (cases ep) (simp_all add: api_run_def api_install_def)

lemma decorated_function_unfold:
  "decorated_function M W f req e w =
     (if M \<le> length (prune W (now e) (cache_list w (remote_addr req)))
      then (Inr \<lparr>body = Json (result False [] (rate_limit_message M W)), status = 429\<rparr>,
            w\<lparr>rate_limit_cache := (rate_limit_cache w)(remote_addr req \<mapsto> prune W (now e) (cache_list w (remote_addr req)))\<rparr>)
      else f req e (w\<lparr>rate_limit_cache := (rate_limit_cache w)(remote_addr req \<mapsto> prune W (now e) (cache_list w (remote_addr req)) @ [now e])\<rparr>))"
  by (simp add: decorated_function_def cache_list_def Let_def split: option.splits)

lemma handler_options:
  "method req = OPTIONS \<Longrightarrow> handler_of ep req e w = (Inr \<lparr>body = Text [], status = 204\<rparr>, w)"
  by (cases ep) (simp_all add: run_code_def install_package_def)

text \<open>The handlers leave \<^verbatim>\<open>rate_limit_cache\<close> alone and never answer 429.\<close>

lemma subprocess_run_cache:
  "subprocess_run argv t e w = (r, w1) \<Longrightarrow> rate_limit_cache w1 = rate_limit_cache w"
  by (auto simp: subprocess_run_def Let_def split: child_behaviour.splits if_splits)

lemma cleanup_cache:
  "cleanup p e w = (r, w1) \<Longrightarrow> rate_limit_cache w1 = rate_limit_cache w"
  by (auto simp: cleanup_def split: option.splits if_splits)

lemma named_temporary_file_cache:
  "named_temporary_file c e w = (r, w1) \<Longrightarrow> rate_limit_cache w1 = rate_limit_cache w"
  by (auto simp: named_temporary_file_def Let_def split: sum.splits json.splits option.splits)

lemma run_code_try_cache: "rate_limit_cache (snd (run_code_try req e w)) = rate_limit_cache w"
  by (auto simp: run_code_try_def split: sum.splits prod.splits option.splits
      dest!: subprocess_run_cache cleanup_cache named_temporary_file_cache)

lemma install_package_try_cache:
  "rate_limit_cache (snd (install_package_try req e w)) = rate_limit_cache w"
  by (auto simp: install_package_try_def split: sum.splits prod.splits
      dest!: subprocess_run_cache)

lemma handler_cache: "rate_limit_cache (snd (handler_of ep req e w)) = rate_limit_cache w"
proof (cases ep)
  case ApiRun
  then show ?thesis
    using run_code_try_cache [of req e w]
    by (auto simp: run_code_def split: prod.splits sum.splits exn.splits)
next
  case ApiInstall
  then show ?thesis
    using install_package_try_cache [of req e w]
    by (auto simp: install_package_def split: prod.splits sum.splits exn.splits)
qed

lemma handler_not_rejected: "\<not> rejected (fst (handler_of ep req e w))"
proof (cases "method req")
  case OPTIONS
  then show ?thesis by (simp add: handler_options rejected_def)
next
  case POST
  show ?thesis
  proof (cases ep)
    case ApiRun
    then show ?thesis using run_code_post [OF POST, of e w]
      by (auto simp: rejected_def well_formed_def)
  next
    case ApiInstall
    then show ?thesis using install_package_post [OF POST, of e w]
      by (auto simp: rejected_def well_formed_def)
  qed
qed

lemma serve_rejected_iff:
  "rejected (fst (serve ep req e w))
     \<longleftrightarrow> max_requests_of ep \<le> length (prune (window_of ep) (now e) (cache_list w (remote_addr req)))"
  by (simp add: serve_eq decorated_function_unfold handler_not_rejected) (simp add: rejected_def)

lemma serve_cache_same:
  "cache_list (snd (serve ep req e w)) (remote_addr req)
     = (if max_requests_of ep \<le> length (prune (window_of ep) (now e) (cache_list w (remote_addr req)))
        then prune (window_of ep) (now e) (cache_list w (remote_addr req))
        else prune (window_of ep) (now e) (cache_list w (remote_addr req)) @ [now e])"
  by (simp add: serve_eq decorated_function_unfold handler_cache cache_list_def)

lemma serve_cache_other:
  "c \<noteq> remote_addr req \<Longrightarrow> cache_list (snd (serve ep req e w)) c = cache_list w c"
  by (simp add: serve_eq decorated_function_unfold handler_cache cache_list_def)

text \<open>
  C2, as the code has it. There is one table, \<^verbatim>\<open>rate_limit_cache\<close>, keyed by the client
  address alone, and both endpoints use it: a request to either endpoint is rejected
  exactly when the client's one list holds at least the endpoint's maximum of timestamps
  younger than the endpoint's window, whichever endpoint recorded them; the call leaves
  in that list the pruned timestamps, with the current time appended when the request is
  admitted. The lists of other clients are not touched.
\<close>

theorem one_table_for_both_policies:
  "(rejected (fst (serve ep req e w))
      \<longleftrightarrow> max_requests_of ep \<le> length (prune (window_of ep) (now e) (cache_list w (remote_addr req))))
   \<and> cache_list (snd (serve ep req e w)) (remote_addr req)
      = (if max_requests_of ep \<le> length (prune (window_of ep) (now e) (cache_list w (remote_addr req)))
         then prune (window_of ep) (now e) (cache_list w (remote_addr req))
         else prune (window_of ep) (now e) (cache_list w (remote_addr req)) @ [now e])
   \<and> (\<forall>c. c \<noteq> remote_addr req
        \<longrightarrow> rate_limit_cache (snd (serve ep req e w)) c = rate_limit_cache w c)"
  by (simp add: serve_eq decorated_function_unfold handler_not_rejected handler_cache cache_list_def)
    (simp add: rejected_def)

theorem one_table_for_both_policies_witness:
  "\<not> rejected (fst (serve ApiInstall
        \<lparr>method = POST, remote_addr = lit ''10.0.0.1'', get_json = Inr (JObj [])\<rparr>
        \<lparr>now = 5, sys_executable = lit ''python3'', tmp_create = Inr (lit ''/tmp/tmpa.py''),
         write_fault = (\<lambda>s. None), child = Hangs, child_files = (\<lambda>fs. fs),
         unlink_fault = None\<rparr> startup))
   \<and> cache_list (snd (serve ApiInstall
        \<lparr>method = POST, remote_addr = lit ''10.0.0.1'', get_json = Inr (JObj [])\<rparr>
        \<lparr>now = 5, sys_executable = lit ''python3'', tmp_create = Inr (lit ''/tmp/tmpa.py''),
         write_fault = (\<lambda>s. None), child = Hangs, child_files = (\<lambda>fs. fs),
         unlink_fault = None\<rparr> startup)) (lit ''10.0.0.1'') = [5]
   \<and> rate_limit_cache (snd (serve ApiInstall
        \<lparr>method = POST, remote_addr = lit ''10.0.0.1'', get_json = Inr (JObj [])\<rparr>
        \<lparr>now = 5, sys_executable = lit ''python3'', tmp_create = Inr (lit ''/tmp/tmpa.py''),
         write_fault = (\<lambda>s. None), child = Hangs, child_files = (\<lambda>fs. fs),
         unlink_fault = None\<rparr> startup)) (lit ''10.0.0.2'') = None"
  using one_table_for_both_policies [of ApiInstall
      "\<lparr>method = POST, remote_addr = lit ''10.0.0.1'', get_json = Inr (JObj [])\<rparr>"
      "\<lparr>now = 5, sys_executable = lit ''python3'', tmp_create = Inr (lit ''/tmp/tmpa.py''),
        write_fault = (\<lambda>s. None), child = Hangs, child_files = (\<lambda>fs. fs),
        unlink_fault = None\<rparr>" startup]
  by (simp add: cache_list_def prune_def startup_def)

lemma replicate_10: "replicate 10 x = [x, x, x, x, x, x, x, x, x, x]"
  by (simp add: eval_nat_numeral)

lemma run_code_no_body:
  "run_code \<lparr>method = POST, remote_addr = c, get_json = Inr (JObj [])\<rparr> e w
   = (Inr (jsonify (result False [] (lit ''No code provided''))), w)"
  by (simp add: run_code_def run_code_try_def dict_get_def)

lemma install_package_no_body:
  "install_package \<lparr>method = POST, remote_addr = c, get_json = Inr (JObj [])\<rparr> e w
   = (Inr (jsonify (result False [] (lit ''No package name provided''))), w)"
  by (simp add: install_package_def install_package_try_def dict_get_def py_strip_def strip_def)

text \<open>
  C2 as stated fails: ten admitted requests to the run endpoint at time 0 make the
  install endpoint reject the client's first install request at time 1, which a server
  that saw no run request admits.
\<close>

theorem run_requests_block_install_counterexample:
  "map rejected (fst (serve_all
      (replicate 10
         (ApiRun, \<lparr>method = POST, remote_addr = lit ''10.0.0.1'', get_json = Inr (JObj [])\<rparr>,
          \<lparr>now = 0, sys_executable = lit ''python3'', tmp_create = Inr (lit ''/tmp/tmpa.py''),
           write_fault = (\<lambda>s. None), child = Hangs, child_files = (\<lambda>fs. fs),
           unlink_fault = None\<rparr>)
       @ [(ApiInstall,
           \<lparr>method = POST, remote_addr = lit ''10.0.0.1'', get_json = Inr (JObj [])\<rparr>,
           \<lparr>now = 1, sys_executable = lit ''python3'', tmp_create = Inr (lit ''/tmp/tmpa.py''),
            write_fault = (\<lambda>s. None), child = Hangs, child_files = (\<lambda>fs. fs),
            unlink_fault = None\<rparr>)])
      startup))
   = [False, False, False, False, False, False, False, False, False, False, True]
   \<and> map rejected (fst (serve_all
        [(ApiInstall,
           \<lparr>method = POST, remote_addr = lit ''10.0.0.1'', get_json = Inr (JObj [])\<rparr>,
           \<lparr>now = 1, sys_executable = lit ''python3'', tmp_create = Inr (lit ''/tmp/tmpa.py''),
            write_fault = (\<lambda>s. None), child = Hangs, child_files = (\<lambda>fs. fs),
            unlink_fault = None\<rparr>)]
        startup))
   = [False]"
  by (simp add: replicate_10 api_run_def api_install_def decorated_function_unfold
      run_code_no_body install_package_no_body cache_list_def prune_def startup_def
      rejected_def jsonify_def)

text \<open>
  C8, as the code has it. The OPTIONS check stands inside the handler, behind the rate
  limiter. A pre-flight request that the limiter admits is answered with an empty body
  and status 204, and all it changes is the client's list in \<^verbatim>\<open>rate_limit_cache\<close>,
  where its timestamp is recorded; when the client's budget is used up it is answered
  with the 429 rate-limit response instead. In both cases the body of the request is not
  looked at.
\<close>

theorem preflight_admitted:
  assumes "method req = OPTIONS"
  shows "(length (prune (window_of ep) (now e) (cache_list w (remote_addr req))) < max_requests_of ep
          \<longrightarrow> serve ep req e w
              = (Inr \<lparr>body = Text [], status = 204\<rparr>,
                 w\<lparr>rate_limit_cache := (rate_limit_cache w)
                      (remote_addr req \<mapsto>
                         prune (window_of ep) (now e) (cache_list w (remote_addr req)) @ [now e])\<rparr>))
       \<and> (max_requests_of ep \<le> length (prune (window_of ep) (now e) (cache_list w (remote_addr req)))
          \<longrightarrow> fst (serve ep req e w)
              = Inr \<lparr>body = Json (result False []
                               (rate_limit_message (max_requests_of ep) (window_of ep))),
                     status = 429\<rparr>)
       \<and> serve ep (req\<lparr>get_json := j\<rparr>) e w = serve ep req e w"
  using assms
  by (simp add: serve_eq decorated_function_unfold handler_options)

theorem preflight_admitted_witness:
  "serve ApiRun
     \<lparr>method = OPTIONS, remote_addr = lit ''10.0.0.1'', get_json = Inl []\<rparr>
     \<lparr>now = 0, sys_executable = lit ''python3'', tmp_create = Inr (lit ''/tmp/tmpa.py''),
      write_fault = (\<lambda>s. None), child = Hangs, child_files = (\<lambda>fs. fs),
      unlink_fault = None\<rparr> startup
   = (Inr \<lparr>body = Text [], status = 204\<rparr>,
      startup\<lparr>rate_limit_cache := (rate_limit_cache startup)(lit ''10.0.0.1'' \<mapsto> [0])\<rparr>)"
  using preflight_admitted [of
      "\<lparr>method = OPTIONS, remote_addr = lit ''10.0.0.1'', get_json = Inl []\<rparr>" ApiRun
      "\<lparr>now = 0, sys_executable = lit ''python3'', tmp_create = Inr (lit ''/tmp/tmpa.py''),
        write_fault = (\<lambda>s. None), child = Hangs, child_files = (\<lambda>fs. fs),
        unlink_fault = None\<rparr>" startup]
  by (simp add: cache_list_def prune_def startup_def)

lemma replicate_11: "replicate 11 x = [x, x, x, x, x, x, x, x, x, x, x]"
  by (simp add: eval_nat_numeral)

text \<open>
  C8 as stated fails: of eleven pre-flight requests that a client sends to the install
  endpoint at the same time, the eleventh is answered with status 429.
\<close>

theorem preflight_rate_limited_counterexample:
  "map (\<lambda>r. case r of Inl x \<Rightarrow> 0 | Inr r \<Rightarrow> status r)
     (fst (serve_all
        (replicate 11
          (ApiInstall,
           \<lparr>method = OPTIONS, remote_addr = lit ''10.0.0.1'', get_json = Inl []\<rparr>,
           \<lparr>now = 0, sys_executable = lit ''python3'', tmp_create = Inr (lit ''/tmp/tmpa.py''),
            write_fault = (\<lambda>s. None), child = Hangs, child_files = (\<lambda>fs. fs),
            unlink_fault = None\<rparr>))
        startup))
   = [204, 204, 204, 204, 204, 204, 204, 204, 204, 204, 429]"
  by (simp add: replicate_11 api_install_def decorated_function_unfold install_package_def
      cache_list_def prune_def startup_def)

section \<open>The sliding window\<close>

text \<open>
  With a clock that does not go back, the admitted requests of a client to an endpoint
  keep within the endpoint's maximum in every window of the endpoint's length, as long
  as the client's requests go to endpoints whose window is at least as long. All
  requests go through the one list of the client, and a check prunes it with the window
  of the endpoint called: a shorter window throws away timestamps that a longer one still
  needs.
\<close>

lemma window_bound_step:
  fixes W :: real and H kept :: "real list"
  assumes sub: "subseq (filter (\<lambda>x. t - x < W) H) kept"
    and room: "length kept < M"
    and old: "length (filter (\<lambda>x. s \<le> x \<and> x < s + W) H) \<le> M"
  shows "length (filter (\<lambda>x. s \<le> x \<and> x < s + W) (H @ [t])) \<le> M"
proof (cases "s \<le> t \<and> t < s + W")
  case False
  then show ?thesis using old by auto
next
  case True
  have "filter (\<lambda>x. s \<le> x \<and> x < s + W) H
      = filter (\<lambda>x. s \<le> x \<and> x < s + W) (filter (\<lambda>x. t - x < W) H)"
    using True by (auto simp: filter_filter intro!: filter_cong)
  then have "length (filter (\<lambda>x. s \<le> x \<and> x < s + W) H) \<le> length (filter (\<lambda>x. t - x < W) H)"
    by (metis length_filter_le)
  also have "\<dots> \<le> length kept"
    using sub by (rule list_emb_length)
  finally show ?thesis using room True by simp
qed

lemma window_bound_gen:
  assumes "sorted (t0 # map (\<lambda>x. now (snd (snd x))) trace)"
    and "\<forall>x \<in> set trace. remote_addr (fst (snd x)) = c \<longrightarrow> window_of ep \<le> window_of (fst x)"
    and "subseq (filter (\<lambda>x. t0 - x < real (window_of ep)) H) (cache_list w c)"
    and "\<forall>s. length (filter (\<lambda>x. s \<le> x \<and> x < s + real (window_of ep)) H) \<le> max_requests_of ep"
  shows "length (filter (\<lambda>x. s \<le> x \<and> x < s + real (window_of ep)) (H @ admitted_times ep c trace w))
           \<le> max_requests_of ep"
  using assms
proof (induction trace arbitrary: t0 H w)
  case Nil
  then show ?case by simp
next
  case (Cons a trace)
  obtain ep' req e where a: "a = (ep', req, e)" by (cases a) auto
  obtain r w1 where sv: "serve ep' req e w = (r, w1)" by (cases "serve ep' req e w") auto
  define t where "t = now e"
  define W where "W = real (window_of ep)"
  define L where "L = cache_list w c"
  define add where "add = (if ep' = ep \<and> remote_addr req = c \<and> \<not> rejected r then [t] else [])"
  have le: "t0 \<le> t" and srt: "sorted (t # map (\<lambda>x. now (snd (snd x))) trace)"
    using Cons.prems(1) by (auto simp: a t_def)
  have pol: "\<forall>x \<in> set trace. remote_addr (fst (snd x)) = c \<longrightarrow> window_of ep \<le> window_of (fst x)"
    using Cons.prems(2) by simp
  have unf: "H @ admitted_times ep c (a # trace) w = (H @ add) @ admitted_times ep c trace w1"
    by (simp add: a sv add_def t_def)
  have "subseq (filter (\<lambda>x. t - x < W) (filter (\<lambda>x. t0 - x < W) H)) (filter (\<lambda>x. t - x < W) L)"
    using Cons.prems(3) unfolding W_def L_def by (rule subseq_filter)
  moreover have "filter (\<lambda>x. t - x < W) (filter (\<lambda>x. t0 - x < W) H) = filter (\<lambda>x. t - x < W) H"
    using le by (auto simp: filter_filter intro!: filter_cong)
  ultimately have F: "subseq (filter (\<lambda>x. t - x < W) H) (filter (\<lambda>x. t - x < W) L)"
    by simp
  have old: "\<forall>s. length (filter (\<lambda>x. s \<le> x \<and> x < s + W) H) \<le> max_requests_of ep"
    using Cons.prems(4) by (simp add: W_def)
  have inv: "subseq (filter (\<lambda>x. t - x < W) (H @ add)) (cache_list w1 c)
           \<and> (\<forall>s. length (filter (\<lambda>x. s \<le> x \<and> x < s + W) (H @ add)) \<le> max_requests_of ep)"
  proof (cases "remote_addr req = c")
    case False
    then have "cache_list w1 c = L"
      using serve_cache_other [of c req ep' e w] sv by (simp add: L_def)
    moreover have "add = []" using False by (simp add: add_def)
    moreover have "subseq (filter (\<lambda>x. t - x < W) H) L"
      using F subseq_filter_left subseq_order.trans by blast
    ultimately show ?thesis using old by simp
  next
    case True
    define kept where "kept = prune (window_of ep') t L"
    have wle: "W \<le> real (window_of ep')"
      using Cons.prems(2) True by (simp add: a W_def)
    have "filter (\<lambda>x. t - x < W) kept = filter (\<lambda>x. t - x < W) L"
      using wle by (auto simp: kept_def prune_def filter_filter intro!: filter_cong)
    then have "subseq (filter (\<lambda>x. t - x < W) L) kept"
      by (metis subseq_filter_left)
    with F have G: "subseq (filter (\<lambda>x. t - x < W) H) kept"
      using subseq_order.trans by blast
    have rej: "rejected r \<longleftrightarrow> max_requests_of ep' \<le> length kept"
      using serve_rejected_iff [of ep' req e w] sv True by (simp add: kept_def L_def t_def)
    have c1: "cache_list w1 c = (if max_requests_of ep' \<le> length kept then kept else kept @ [t])"
      using serve_cache_same [of ep' req e w] sv True by (simp add: kept_def L_def t_def)
    show ?thesis
    proof (cases "add = []")
      case True
      have "subseq (filter (\<lambda>x. t - x < W) H) (cache_list w1 c)"
        using G by (simp add: c1 subseq_rev_drop_many)
      then show ?thesis using True old by simp
    next
      case False
      then have add: "add = [t]" and ep: "ep' = ep" and nr: "\<not> rejected r"
        by (auto simp: add_def split: if_splits)
      have room: "length kept < max_requests_of ep"
        using nr rej ep by simp
      have c2: "cache_list w1 c = kept @ [t]"
        using c1 room ep by simp
      have "subseq (filter (\<lambda>x. t - x < W) (H @ [t])) (kept @ [t])"
        using G by (simp add: subseq_rev_drop_many)
      moreover have "\<forall>s. length (filter (\<lambda>x. s \<le> x \<and> x < s + W) (H @ [t])) \<le> max_requests_of ep"
        using window_bound_step [OF G room] old by blast
      ultimately show ?thesis by (simp add: add c2)
    qed
  qed
  show ?case
    unfolding unf
    using Cons.IH [of t "H @ add" w1] srt pol inv
    by (simp add: W_def)
qed

lemma window_bound:
  assumes "sorted (map (\<lambda>x. now (snd (snd x))) trace)"
    and "\<forall>x \<in> set trace. remote_addr (fst (snd x)) = c \<longrightarrow> window_of ep \<le> window_of (fst x)"
  shows "admitted_in_window ep c trace s \<le> max_requests_of ep"
proof (cases trace)
  case Nil
  then show ?thesis by (simp add: admitted_in_window_def)
next
  case (Cons a rest)
  have "sorted (now (snd (snd a)) # map (\<lambda>x. now (snd (snd x))) trace)"
    using assms(1) Cons by simp
  from window_bound_gen [OF this assms(2), of "[]" startup s]
  show ?thesis by (simp add: admitted_in_window_def startup_def cache_list_def)
qed

text \<open>The run endpoint has the shortest window, so its bound holds whatever else the
  client sends; the install endpoint's bound holds for a client that sends no run
  request.\<close>

lemma run_window_bound:
  assumes "sorted (map (\<lambda>x. now (snd (snd x))) trace)"
  shows "admitted_in_window ApiRun c trace s \<le> 20"
proof -
  have "window_of ApiRun \<le> window_of ep" for ep
    by (cases ep) simp_all
  then show ?thesis
    using window_bound [OF assms, of c ApiRun s] by simp
qed

lemma install_window_bound:
  assumes "sorted (map (\<lambda>x. now (snd (snd x))) trace)"
    and "\<forall>x \<in> set trace. remote_addr (fst (snd x)) = c \<longrightarrow> fst x = ApiInstall"
  shows "admitted_in_window ApiInstall c trace s \<le> 10"
  using window_bound [OF assms(1), of c ApiInstall s] assms(2) by auto

text \<open>
  C1 at a failing input. A client sends ten requests to the install endpoint at time 0,
  one request to the run endpoint at time 61 and one more to the install endpoint at time
  62. All are admitted: the run request prunes the client's list with its window of 60
  seconds and so removes the ten install timestamps. Eleven install requests are admitted
  in the window from 0 to 300, one more than the maximum of 10.
\<close>

theorem install_limit_broken_by_run:
  "admitted_times ApiInstall (lit ''10.0.0.1'')
      (replicate 10
         (ApiInstall, \<lparr>method = POST, remote_addr = lit ''10.0.0.1'', get_json = Inr (JObj [])\<rparr>,
          \<lparr>now = 0, sys_executable = lit ''python3'', tmp_create = Inr (lit ''/tmp/tmpa.py''),
           write_fault = (\<lambda>s. None), child = Hangs, child_files = (\<lambda>fs. fs),
           unlink_fault = None\<rparr>)
       @ [(ApiRun,
           \<lparr>method = POST, remote_addr = lit ''10.0.0.1'', get_json = Inr (JObj [])\<rparr>,
           \<lparr>now = 61, sys_executable = lit ''python3'', tmp_create = Inr (lit ''/tmp/tmpa.py''),
            write_fault = (\<lambda>s. None), child = Hangs, child_files = (\<lambda>fs. fs),
            unlink_fault = None\<rparr>),
          (ApiInstall,
           \<lparr>method = POST, remote_addr = lit ''10.0.0.1'', get_json = Inr (JObj [])\<rparr>,
           \<lparr>now = 62, sys_executable = lit ''python3'', tmp_create = Inr (lit ''/tmp/tmpa.py''),
            write_fault = (\<lambda>s. None), child = Hangs, child_files = (\<lambda>fs. fs),
            unlink_fault = None\<rparr>)])
      startup
   = [0, 0, 0, 0, 0, 0, 0, 0, 0, 0, 62]
   \<and> admitted_in_window ApiInstall (lit ''10.0.0.1'')
      (replicate 10
         (ApiInstall, \<lparr>method = POST, remote_addr = lit ''10.0.0.1'', get_json = Inr (JObj [])\<rparr>,
          \<lparr>now = 0, sys_executable = lit ''python3'', tmp_create = Inr (lit ''/tmp/tmpa.py''),
           write_fault = (\<lambda>s. None), child = Hangs, child_files = (\<lambda>fs. fs),
           unlink_fault = None\<rparr>)
       @ [(ApiRun,
           \<lparr>method = POST, remote_addr = lit ''10.0.0.1'', get_json = Inr (JObj [])\<rparr>,
           \<lparr>now = 61, sys_executable = lit ''python3'', tmp_create = Inr (lit ''/tmp/tmpa.py''),
            write_fault = (\<lambda>s. None), child = Hangs, child_files = (\<lambda>fs. fs),
            unlink_fault = None\<rparr>),
          (ApiInstall,
           \<lparr>method = POST, remote_addr = lit ''10.0.0.1'', get_json = Inr (JObj [])\<rparr>,
           \<lparr>now = 62, sys_executable = lit ''python3'', tmp_create = Inr (lit ''/tmp/tmpa.py''),
            write_fault = (\<lambda>s. None), child = Hangs, child_files = (\<lambda>fs. fs),
            unlink_fault = None\<rparr>)])
      0
   = 11
   \<and> max_requests_of ApiInstall = 10"
  by (simp add: admitted_in_window_def replicate_10 api_run_def api_install_def
      decorated_function_unfold run_code_no_body install_package_no_body cache_list_def
      prune_def startup_def rejected_def jsonify_def)

end
